theory Spec2Isabelle
  imports Main
begin

section \<open>Python floats\<close>

text \<open>
  A Python \<^verbatim>\<open>float\<close> is an IEEE 754 binary64 value.  \<open>Finite neg m e\<close> stands for
  \<open>(-1)^neg * m * 2^e\<close>; the two zeros are \<open>Finite False 0 _\<close> and \<open>Finite True 0 _\<close>.
  Every operation computes the exact rational result and rounds it to the nearest
  binary64 value, ties to even (\<open>round_double\<close>), as the hardware does.
\<close>

datatype pyfloat = Finite bool nat int | Inf bool | NaN

fun is_finite :: "pyfloat \<Rightarrow> bool" where
  "is_finite (Finite _ _ _) = True"
| "is_finite _ = False"

fun bitlen :: "nat \<Rightarrow> nat" where
  "bitlen n = (if n = 0 then 0 else Suc (bitlen (n div 2)))"

declare bitlen.simps [simp del]

definition round_half_even :: "nat \<Rightarrow> nat \<Rightarrow> nat" where
  "round_half_even n d =
     (let q = n div d; r = n mod d
      in if 2 * r < d then q
         else if d < 2 * r then q + 1
         else if even q then q else q + 1)"

definition scale2_num :: "nat \<Rightarrow> int \<Rightarrow> nat" where
  "scale2_num n e = n * 2 ^ nat (- e)"

definition scale2_den :: "nat \<Rightarrow> int \<Rightarrow> nat" where
  "scale2_den d e = d * 2 ^ nat e"

text \<open>
  \<open>round_double neg n d\<close> rounds the rational \<open>n / d\<close> (\<open>d > 0\<close>) to binary64: a
  53-bit significand, exponents from \<open>-1074\<close> (subnormals) to \<open>971\<close>, overflow to
  infinity.
\<close>

definition round_double :: "bool \<Rightarrow> nat \<Rightarrow> nat \<Rightarrow> pyfloat" where
  "round_double neg n d =
     (if n = 0 then Finite neg 0 (- 1074)
      else
        let e0 = int (bitlen n) - int (bitlen d) - 53;
            e1 = (if 2 ^ 53 * scale2_den d e0 \<le> scale2_num n e0 then e0 + 1 else e0);
            e = max e1 (- 1074);
            m = round_half_even (scale2_num n e) (scale2_den d e)
        in if m = 2 ^ 53
           then (if 971 < e + 1 then Inf neg else Finite neg (2 ^ 52) (e + 1))
           else (if 971 < e then Inf neg else Finite neg m e))"

text \<open>The exact value of a finite float as a signed numerator over a denominator.\<close>

definition fnum :: "bool \<Rightarrow> nat \<Rightarrow> int \<Rightarrow> int" where
  "fnum neg m e = (if neg then - int (scale2_den m e) else int (scale2_den m e))"

definition fden :: "int \<Rightarrow> nat" where
  "fden e = 2 ^ nat (- e)"

fun fneg :: "pyfloat \<Rightarrow> pyfloat" where
  "fneg (Finite s m e) = Finite (\<not> s) m e"
| "fneg (Inf s) = Inf (\<not> s)"
| "fneg NaN = NaN"

fun fabs :: "pyfloat \<Rightarrow> pyfloat" where
  "fabs (Finite s m e) = Finite False m e"
| "fabs (Inf s) = Inf False"
| "fabs NaN = NaN"

fun fadd :: "pyfloat \<Rightarrow> pyfloat \<Rightarrow> pyfloat" where
  "fadd (Finite s m e) (Finite t n f) =
     (let c = fnum s m e * int (fden f) + fnum t n f * int (fden e)
      in if c = 0 then Finite (s \<and> t) 0 (- 1074)
         else round_double (c < 0) (nat \<bar>c\<bar>) (fden e * fden f))"
| "fadd (Finite s m e) (Inf t) = Inf t"
| "fadd (Inf s) (Finite t n f) = Inf s"
| "fadd (Inf s) (Inf t) = (if s = t then Inf s else NaN)"
| "fadd NaN y = NaN"
| "fadd x NaN = NaN"

definition fsub :: "pyfloat \<Rightarrow> pyfloat \<Rightarrow> pyfloat" where
  "fsub x y = fadd x (fneg y)"

text \<open>
  IEEE division.  Python raises \<^verbatim>\<open>ZeroDivisionError\<close> for a zero divisor instead;
  the program only ever divides by the literal \<^verbatim>\<open>2.0\<close>.
\<close>

fun fdiv :: "pyfloat \<Rightarrow> pyfloat \<Rightarrow> pyfloat" where
  "fdiv (Finite s m e) (Finite t n f) =
     (if n = 0 then (if m = 0 then NaN else Inf (s \<noteq> t))
      else round_double (s \<noteq> t) (scale2_den m e * fden f) (scale2_den n f * fden e))"
| "fdiv (Finite s m e) (Inf t) = Finite (s \<noteq> t) 0 (- 1074)"
| "fdiv (Inf s) (Finite t n f) = Inf (s \<noteq> t)"
| "fdiv (Inf s) (Inf t) = NaN"
| "fdiv NaN y = NaN"
| "fdiv x NaN = NaN"

text \<open>The comparison \<^verbatim>\<open>x < y\<close>: false whenever an operand is a NaN.\<close>

fun flt :: "pyfloat \<Rightarrow> pyfloat \<Rightarrow> bool" where
  "flt (Finite s m e) (Finite t n f) =
     (fnum s m e * int (fden f) < fnum t n f * int (fden e))"
| "flt (Finite s m e) (Inf t) = (\<not> t)"
| "flt (Inf s) (Finite t n f) = s"
| "flt (Inf s) (Inf t) = (s \<and> \<not> t)"
| "flt NaN y = False"
| "flt x NaN = False"

section \<open>Text to number: \<^verbatim>\<open>float()\<close> and \<^verbatim>\<open>int()\<close>\<close>

text \<open>
  Text is a \<open>string\<close> of 8-bit characters (code points below 256).  Both conversions
  ignore surrounding whitespace, accept one sign and allow single underscores between
  digits; \<^verbatim>\<open>float()\<close> also reads \<^verbatim>\<open>inf\<close>, \<^verbatim>\<open>infinity\<close> and \<^verbatim>\<open>nan\<close> in any
  letter case.  \<open>None\<close> stands for the \<^verbatim>\<open>ValueError\<close> the conversion raises.  The
  limit some interpreter versions put on the number of digits \<^verbatim>\<open>int()\<close> reads is not
  modelled.
\<close>

definition is_digit :: "char \<Rightarrow> bool" where
  "is_digit c = (c \<in> set ''0123456789'')"

definition digit_val :: "char \<Rightarrow> nat" where
  "digit_val c = of_char c - 48"

definition digits_val :: "string \<Rightarrow> nat" where
  "digits_val ds = foldl (\<lambda>a c. 10 * a + digit_val c) 0 ds"

definition is_space :: "char \<Rightarrow> bool" where
  "is_space c =
     (c \<in> {CHR 0x09, CHR 0x0A, CHR 0x0B, CHR 0x0C, CHR 0x0D, CHR 0x20, CHR 0x85, CHR 0xA0})"

definition strip :: "string \<Rightarrow> string" where
  "strip s = rev (dropWhile is_space (rev (dropWhile is_space s)))"

text \<open>An underscore must stand between two digits; \<open>prev\<close> is the character before.\<close>

fun drop_underscores :: "char \<Rightarrow> string \<Rightarrow> string option" where
  "drop_underscores prev [] = (if prev = CHR ''_'' then None else Some [])"
| "drop_underscores prev (c # cs) =
     (if c = CHR ''_''
      then (if is_digit prev then drop_underscores c cs else None)
      else if prev = CHR ''_'' \<and> \<not> is_digit c then None
      else map_option ((#) c) (drop_underscores c cs))"

definition split_sign :: "string \<Rightarrow> bool \<times> string" where
  "split_sign s =
     (case s of
        [] \<Rightarrow> (False, [])
      | c # cs \<Rightarrow>
          if c = CHR ''-'' then (True, cs)
          else if c = CHR ''+'' then (False, cs)
          else (False, s))"

definition matches_ci :: "string \<Rightarrow> string \<Rightarrow> string \<Rightarrow> bool" where
  "matches_ci s lo up =
     (length s = length lo \<and> list_all (\<lambda>(c, l, u). c = l \<or> c = u) (zip s (zip lo up)))"

definition signed :: "bool \<Rightarrow> nat \<Rightarrow> int" where
  "signed neg n = (if neg then - int n else int n)"

definition parse_exponent :: "string \<Rightarrow> int option" where
  "parse_exponent s =
     (case s of
        [] \<Rightarrow> Some 0
      | c # cs \<Rightarrow>
          if c = CHR ''e'' \<or> c = CHR ''E''
          then (let (neg, ds) = split_sign cs
                in if ds \<noteq> [] \<and> list_all is_digit ds
                   then Some (signed neg (digits_val ds)) else None)
          else None)"

definition parse_decimal :: "bool \<Rightarrow> string \<Rightarrow> pyfloat option" where
  "parse_decimal neg s =
     (let ip = takeWhile is_digit s;
          r1 = dropWhile is_digit s;
          fp = (case r1 of [] \<Rightarrow> []
                | c # cs \<Rightarrow> if c = CHR ''.'' then takeWhile is_digit cs else []);
          r2 = (case r1 of [] \<Rightarrow> []
                | c # cs \<Rightarrow> if c = CHR ''.'' then dropWhile is_digit cs else r1)
      in if ip @ fp = [] then None
         else (case parse_exponent r2 of
                 None \<Rightarrow> None
               | Some x \<Rightarrow>
                   Some (let k = x - int (length fp)
                         in round_double neg (digits_val (ip @ fp) * 10 ^ nat k)
                              (10 ^ nat (- k)))))"

definition py_float :: "string \<Rightarrow> pyfloat option" where
  "py_float txt =
     (case drop_underscores (CHR 0x00) txt of
        None \<Rightarrow> None
      | Some t \<Rightarrow>
          (let (neg, r) = split_sign (strip t)
           in if matches_ci r ''inf'' ''INF'' \<or> matches_ci r ''infinity'' ''INFINITY''
              then Some (Inf neg)
              else if matches_ci r ''nan'' ''NAN'' then Some NaN
              else parse_decimal neg r))"

definition py_int :: "string \<Rightarrow> int option" where
  "py_int txt =
     (let (neg, r) = split_sign (strip txt)
      in case drop_underscores (CHR 0x00) r of
           None \<Rightarrow> None
         | Some ds \<Rightarrow>
             if ds \<noteq> [] \<and> list_all is_digit ds
             then Some (signed neg (digits_val ds)) else None)"

section \<open>Number to text: \<^verbatim>\<open>str()\<close> and the format \<^verbatim>\<open>.3f\<close>\<close>

definition digit_char :: "nat \<Rightarrow> char" where
  "digit_char d = ''0123456789'' ! d"

fun dec_str :: "nat \<Rightarrow> string" where
  "dec_str n =
     (if n < 10 then [digit_char n] else dec_str (n div 10) @ [digit_char (n mod 10)])"

declare dec_str.simps [simp del]

text \<open>
  \<^verbatim>\<open>f"{x:.3f}"\<close>: the exact value rounded to a multiple of \<open>1/1000\<close>, ties to even,
  printed with three decimals; the sign bit is printed also when the digits are all zero.
\<close>

definition frac3 :: "nat \<Rightarrow> string" where
  "frac3 r = [digit_char (r div 100), digit_char (r div 10 mod 10), digit_char (r mod 10)]"

fun format_3f :: "pyfloat \<Rightarrow> string" where
  "format_3f (Finite s m e) =
     (let k = round_half_even (scale2_den m e * 1000) (fden e)
      in (if s then ''-'' else []) @ dec_str (k div 1000) @ ''.'' @ frac3 (k mod 1000))"
| "format_3f (Inf s) = (if s then ''-inf'' else ''inf'')"
| "format_3f NaN = ''nan''"

declare format_3f.simps [simp del]

text \<open>
  \<^verbatim>\<open>str(x)\<close> prints the shortest decimal that reads back as \<open>x\<close> (the closest one
  among the shortest).  \<open>dec_exponent n d\<close> is the \<open>p\<close> with \<open>10^p \<le> n/d < 10^(p+1)\<close>;
  \<open>shortest_repr n d p k\<close> tries \<open>k\<close>, \<open>k + 1\<close>, ... significant digits (17 always
  suffice) and returns \<open>(c, q)\<close> for the decimal \<open>c * 10^q\<close>.
\<close>

definition dec_exponent :: "nat \<Rightarrow> nat \<Rightarrow> int" where
  "dec_exponent n d =
     (let p0 = int (length (dec_str n)) - int (length (dec_str d))
      in if d * 10 ^ nat p0 \<le> n * 10 ^ nat (- p0) then p0 else p0 - 1)"

function shortest_repr :: "nat \<Rightarrow> nat \<Rightarrow> int \<Rightarrow> nat \<Rightarrow> nat \<times> int" where
  "shortest_repr n d p k =
     (let q = p - int k + 1;
          N = n * 10 ^ nat (- q);
          D = d * 10 ^ nat q;
          lo = N div D;
          hi = lo + 1;
          target = round_double False n d;
          ok_lo = (round_double False (lo * 10 ^ nat q) (10 ^ nat (- q)) = target);
          ok_hi = (round_double False (hi * 10 ^ nat q) (10 ^ nat (- q)) = target);
          lo_closer = (2 * N < (2 * lo + 1) * D \<or> (2 * N = (2 * lo + 1) * D \<and> even lo))
      in if ok_lo \<and> (\<not> ok_hi \<or> lo_closer) then (lo, q)
         else if ok_hi then (hi, q)
         else if 17 \<le> k then (if lo_closer then lo else hi, q)
         else shortest_repr n d p (k + 1))"
  by pat_completeness auto
termination
  by (relation "measure (\<lambda>(n, d, p, k). 17 - k)") auto

declare shortest_repr.simps [simp del]

function strip_zeros :: "nat \<Rightarrow> int \<Rightarrow> nat \<times> int" where
  "strip_zeros c q =
     (if c \<noteq> 0 \<and> c mod 10 = 0 then strip_zeros (c div 10) (q + 1) else (c, q))"
  by pat_completeness auto
termination
  by (relation "measure (\<lambda>(c, q). c)") auto

declare strip_zeros.simps [simp del]

definition pad2 :: "nat \<Rightarrow> string" where
  "pad2 x = (if x < 10 then ''0'' @ dec_str x else dec_str x)"

definition repr_finite :: "nat \<Rightarrow> nat \<Rightarrow> string" where
  "repr_finite n d =
     (let (c, q) = (case shortest_repr n d (dec_exponent n d) 1 of
                      (c0, q0) \<Rightarrow> strip_zeros c0 q0);
          ds = dec_str c;
          nd = length ds;
          decpt = int nd + q
      in if decpt \<le> - 4 \<or> 16 < decpt
         then take 1 ds @ (if 1 < nd then ''.'' @ drop 1 ds else []) @ ''e''
                @ (if decpt - 1 < 0 then ''-'' else ''+'') @ pad2 (nat \<bar>decpt - 1\<bar>)
         else if decpt \<le> 0 then ''0.'' @ replicate (nat (- decpt)) (CHR ''0'') @ ds
         else if int nd \<le> decpt
         then ds @ replicate (nat (decpt - int nd)) (CHR ''0'') @ ''.0''
         else take (nat decpt) ds @ ''.'' @ drop (nat decpt) ds)"

fun py_str :: "pyfloat \<Rightarrow> string" where
  "py_str (Finite s m e) =
     (if s then ''-'' else [])
       @ (if m = 0 then ''0.0'' else repr_finite (scale2_den m e) (fden e))"
| "py_str (Inf s) = (if s then ''-inf'' else ''inf'')"
| "py_str NaN = ''nan''"

declare py_str.simps [simp del]

section \<open>The bearing catalogue\<close>

text \<open>
  \<^verbatim>\<open>load_bearings\<close> builds one dictionary per row of the CSV file.  A row, as
  \<^verbatim>\<open>csv.DictReader\<close> yields it, maps column names to cells; the cell of a column the
  row is too short for is \<^verbatim>\<open>None\<close>.  The file system is a map from paths to the rows
  of the regular file there (\<open>None\<close> where \<^verbatim>\<open>os.path.isfile\<close> is false).  An exception
  that leaves the function is the \<open>Inl\<close> of its result.
\<close>

record bearing =
  PartNumber :: "string option"
  ID :: pyfloat
  OD :: pyfloat
  Thickness :: pyfloat

type_synonym row = "string \<Rightarrow> string option option"

datatype error = ValueError | TypeError | KeyError

definition get_item :: "row \<Rightarrow> string \<Rightarrow> error + string option" where
  "get_item r k = (case r k of None \<Rightarrow> Inl KeyError | Some v \<Rightarrow> Inr v)"

definition float_of_cell :: "string option \<Rightarrow> error + pyfloat" where
  "float_of_cell v =
     (case v of
        None \<Rightarrow> Inl TypeError
      | Some s \<Rightarrow> (case py_float s of None \<Rightarrow> Inl ValueError | Some x \<Rightarrow> Inr x))"

definition float_item :: "row \<Rightarrow> string \<Rightarrow> error + pyfloat" where
  "float_item r k = (case get_item r k of Inl e \<Rightarrow> Inl e | Inr v \<Rightarrow> float_of_cell v)"

definition make_bearing :: "row \<Rightarrow> error + bearing" where
  "make_bearing r =
     (case get_item r ''PartNumber'' of Inl e \<Rightarrow> Inl e | Inr pn \<Rightarrow>
     (case float_item r ''ID'' of Inl e \<Rightarrow> Inl e | Inr i \<Rightarrow>
     (case float_item r ''OD'' of Inl e \<Rightarrow> Inl e | Inr od \<Rightarrow>
     (case float_item r ''Thickness'' of Inl e \<Rightarrow> Inl e | Inr th \<Rightarrow>
        Inr \<lparr>PartNumber = pn, ID = i, OD = od, Thickness = th\<rparr>))))"

fun load_rows :: "row list \<Rightarrow> bearing list \<Rightarrow> error + bearing list" where
  "load_rows [] bearings_data = Inr bearings_data"
| "load_rows (r # rows) bearings_data =
     (case make_bearing r of
        Inl e \<Rightarrow> Inl e
      | Inr b \<Rightarrow> load_rows rows (bearings_data @ [b]))"

definition load_bearings :: "(string \<Rightarrow> row list option) \<Rightarrow> string \<Rightarrow> error + bearing list" where
  "load_bearings fs csv_filename =
     (let bearings_data = []
      in case fs csv_filename of
           None \<Rightarrow> Inr bearings_data
         | Some rows \<Rightarrow> load_rows rows bearings_data)"

text \<open>The literals \<^verbatim>\<open>1e-6\<close>, \<^verbatim>\<open>0.2\<close> and \<^verbatim>\<open>2.0\<close> of the source.\<close>

definition lit_1e_6 :: pyfloat where
  "lit_1e_6 = round_double False 1 1000000"

definition lit_0_2 :: pyfloat where
  "lit_0_2 = round_double False 2 10"

definition lit_2_0 :: pyfloat where
  "lit_2_0 = round_double False 2 1"

definition id_matches :: "bearing \<Rightarrow> pyfloat \<Rightarrow> bool" where
  "id_matches b inner_diameter = flt (fabs (fsub (ID b) inner_diameter)) lit_1e_6"

fun find_bearing_by_ID :: "bearing list \<Rightarrow> pyfloat \<Rightarrow> bearing option" where
  "find_bearing_by_ID [] inner_diameter = None"
| "find_bearing_by_ID (b # bearings_data) inner_diameter =
     (if id_matches b inner_diameter then Some b
      else find_bearing_by_ID bearings_data inner_diameter)"

section \<open>The window and its handlers\<close>

text \<open>
  The state the handlers share: the catalogue loaded at start, the text of each entry
  widget, and the text of each Tk variable shown in a label.  \<^verbatim>\<open>entry_shaft_diameter\<close>
  and \<^verbatim>\<open>entry_roller_base_diameter\<close> show the variables whose writes trigger the two
  change handlers; no handler writes to them.  Setting a Tk variable to \<^verbatim>\<open>None\<close> stores
  the text \<^verbatim>\<open>None\<close>.
\<close>

record gui =
  bearings_list :: "bearing list"
  entry_shaft_diameter :: string
  entry_num_drive_rollers :: string
  entry_drive_roller_diameter :: string
  entry_drive_roller_base_thickness :: string
  entry_roller_base_diameter :: string
  entry_ring_pin_diameter :: string
  entry_cycloidal_pin_diameter :: string
  entry_cycloidal_pin_height :: string
  entry_tolerance :: string
  entry_cycloidal_disc_thickness :: string
  bearing_thickness_var :: string
  bearing_od_var :: string
  part_number_shaft_var :: string
  roller_base_bearing_thickness_var :: string
  roller_base_bearing_od_var :: string
  part_number_roller_base_var :: string
  cycloidal_disc_id_var :: string
  hole_drive_roller_var :: string
  hole_cycloidal_pin_var :: string
  eccentricity_var :: string

definition tk_text :: "string option \<Rightarrow> string" where
  "tk_text v = (case v of None \<Rightarrow> ''None'' | Some s \<Rightarrow> s)"

definition on_shaft_diameter_change :: "gui \<Rightarrow> gui" where
  "on_shaft_diameter_change st =
     (case py_float (entry_shaft_diameter st) of
        None \<Rightarrow> st
      | Some sd \<Rightarrow>
          (case find_bearing_by_ID (bearings_list st) sd of
             None \<Rightarrow> st
           | Some found_bearing \<Rightarrow>
               st\<lparr>bearing_thickness_var := py_str (Thickness found_bearing),
                  bearing_od_var := py_str (OD found_bearing),
                  part_number_shaft_var := tk_text (PartNumber found_bearing),
                  cycloidal_disc_id_var := py_str (OD found_bearing)\<rparr>))"

definition on_roller_base_diameter_change :: "gui \<Rightarrow> gui" where
  "on_roller_base_diameter_change st =
     (case py_float (entry_roller_base_diameter st) of
        None \<Rightarrow> st
      | Some rbd \<Rightarrow>
          (case find_bearing_by_ID (bearings_list st) rbd of
             None \<Rightarrow> st
           | Some found_bearing \<Rightarrow>
               st\<lparr>roller_base_bearing_thickness_var := py_str (Thickness found_bearing),
                  roller_base_bearing_od_var := py_str (OD found_bearing),
                  part_number_roller_base_var := tk_text (PartNumber found_bearing)\<rparr>))"

definition calculate_cycloidal_params :: "gui \<Rightarrow> gui" where
  "calculate_cycloidal_params st =
     (case py_float (entry_shaft_diameter st) of None \<Rightarrow> st | Some shaft_diam \<Rightarrow>
     (case py_int (entry_num_drive_rollers st) of None \<Rightarrow> st | Some num_drive_rollers \<Rightarrow>
     (case py_float (entry_drive_roller_diameter st) of None \<Rightarrow> st | Some drive_roller_diam \<Rightarrow>
     (case py_float (entry_drive_roller_base_thickness st) of None \<Rightarrow> st
        | Some drive_roller_base_thickness \<Rightarrow>
     (case py_float (entry_roller_base_diameter st) of None \<Rightarrow> st | Some roller_base_diam \<Rightarrow>
     (case py_float (entry_ring_pin_diameter st) of None \<Rightarrow> st | Some ring_pin_diam \<Rightarrow>
     (case py_float (entry_cycloidal_pin_diameter st) of None \<Rightarrow> st | Some cycloidal_pin_diam \<Rightarrow>
     (case py_float (entry_cycloidal_pin_height st) of None \<Rightarrow> st | Some cycloidal_pin_height \<Rightarrow>
     (case py_float (entry_tolerance st) of None \<Rightarrow> st | Some tolerance_val \<Rightarrow>
     (case py_float (cycloidal_disc_id_var st) of None \<Rightarrow> st | Some cycloidal_disc_id \<Rightarrow>
     (case py_float (entry_cycloidal_disc_thickness st) of None \<Rightarrow> st
        | Some cycloidal_disc_thickness \<Rightarrow>
        (let drive_roller_hole_diam = fsub (fadd drive_roller_diam lit_0_2) tolerance_val;
             cycloidal_pin_hole_diam = fsub (fadd cycloidal_pin_diam lit_0_2) tolerance_val;
             eccentricity_value = fdiv (fsub ring_pin_diam cycloidal_pin_diam) lit_2_0
         in st\<lparr>hole_drive_roller_var := format_3f drive_roller_hole_diam,
               hole_cycloidal_pin_var := format_3f cycloidal_pin_hole_diam,
               eccentricity_var := format_3f eccentricity_value\<rparr>))))))))))))"

section \<open>Properties and sample inputs\<close>

text \<open>
  \<open>three_decimals s\<close>: the text \<open>s\<close> is a fixed-point numeral with exactly three
  decimals (an optional minus sign, at least one digit, a point, three digits).
\<close>

definition three_decimals :: "string \<Rightarrow> bool" where
  "three_decimals s =
     (let body = (case s of [] \<Rightarrow> [] | c # cs \<Rightarrow> if c = CHR ''-'' then cs else s);
          ip = takeWhile is_digit body;
          rest = dropWhile is_digit body
      in ip \<noteq> [] \<and>
         (case rest of
            [] \<Rightarrow> False
          | c # fr \<Rightarrow> c = CHR ''.'' \<and> length fr = 3 \<and> list_all is_digit fr))"





text \<open>All eleven fields the full calculation reads convert.\<close>

definition all_parse :: "gui \<Rightarrow> bool" where
  "all_parse st =
     (py_float (entry_shaft_diameter st) \<noteq> None \<and>
      py_int (entry_num_drive_rollers st) \<noteq> None \<and>
      py_float (entry_drive_roller_diameter st) \<noteq> None \<and>
      py_float (entry_drive_roller_base_thickness st) \<noteq> None \<and>
      py_float (entry_roller_base_diameter st) \<noteq> None \<and>
      py_float (entry_ring_pin_diameter st) \<noteq> None \<and>
      py_float (entry_cycloidal_pin_diameter st) \<noteq> None \<and>
      py_float (entry_cycloidal_pin_height st) \<noteq> None \<and>
      py_float (entry_tolerance st) \<noteq> None \<and>
      py_float (cycloidal_disc_id_var st) \<noteq> None \<and>
      py_float (entry_cycloidal_disc_thickness st) \<noteq> None)"

text \<open>
  The catalogue row of the specification's example, a file system that holds it under
  the name the program loads, and a window whose eleven fields all convert.
\<close>

definition sample_row :: row where
  "sample_row =
     Map.empty(''PartNumber'' \<mapsto> Some ''B1'', ''ID'' \<mapsto> Some ''10.0'',
       ''OD'' \<mapsto> Some ''22.0'', ''Thickness'' \<mapsto> Some ''6.0'')"

definition sample_fs :: "string \<Rightarrow> row list option" where
  "sample_fs = Map.empty(''bearing.csv'' \<mapsto> [sample_row])"

definition sample_bearing :: bearing where
  "sample_bearing =
     \<lparr>PartNumber = Some ''B1'',
      ID = Finite False 5629499534213120 (- 49),
      OD = Finite False 6192449487634432 (- 48),
      Thickness = Finite False 6755399441055744 (- 50)\<rparr>"

definition sample_gui :: gui where
  "sample_gui =
     \<lparr>bearings_list = [sample_bearing],
      entry_shaft_diameter = ''10.0'',
      entry_num_drive_rollers = ''8'',
      entry_drive_roller_diameter = ''6.0'',
      entry_drive_roller_base_thickness = ''3.0'',
      entry_roller_base_diameter = ''10.0'',
      entry_ring_pin_diameter = ''8.0'',
      entry_cycloidal_pin_diameter = ''6.0'',
      entry_cycloidal_pin_height = ''5.0'',
      entry_tolerance = ''0.05'',
      entry_cycloidal_disc_thickness = ''4.0'',
      bearing_thickness_var = [],
      bearing_od_var = [],
      part_number_shaft_var = [],
      roller_base_bearing_thickness_var = [],
      roller_base_bearing_od_var = [],
      part_number_roller_base_var = [],
      cycloidal_disc_id_var = ''22.0'',
      hole_drive_roller_var = [],
      hole_cycloidal_pin_var = [],
      eccentricity_var = []\<rparr>"







definition inf_row :: row where
  "inf_row = sample_row(''ID'' \<mapsto> Some ''inf'')"

definition inf_fs :: "string \<Rightarrow> row list option" where
  "inf_fs = Map.empty(''bearing.csv'' \<mapsto> [inf_row])"

definition inf_bearing :: bearing where
  "inf_bearing = sample_bearing\<lparr>ID := Inf False\<rparr>"

definition nan_gui :: gui where
  "nan_gui = sample_gui\<lparr>entry_tolerance := ''nan''\<rparr>"

section \<open>Evaluating the conversions on sample text\<close>

lemmas float_eval =
  round_double_def bitlen.simps scale2_num_def scale2_den_def round_half_even_def Let_def
  fnum_def fden_def fsub_def

lemmas parse_eval =
  py_float_def py_int_def strip_def is_space_def split_sign_def matches_ci_def
  parse_decimal_def parse_exponent_def is_digit_def digit_val_def digits_val_def signed_def

lemma py_float_10_0: "py_float ''10.0'' = Some (Finite False 5629499534213120 (- 49))"
  by (simp add: parse_eval) (simp add: float_eval)

lemma py_float_22_0: "py_float ''22.0'' = Some (Finite False 6192449487634432 (- 48))"
  by (simp add: parse_eval) (simp add: float_eval)

lemma py_float_6_0: "py_float ''6.0'' = Some (Finite False 6755399441055744 (- 50))"
  by (simp add: parse_eval) (simp add: float_eval)

lemma py_float_8_0: "py_float ''8.0'' = Some (Finite False 4503599627370496 (- 49))"
  by (simp add: parse_eval) (simp add: float_eval)

lemma py_float_3_0: "py_float ''3.0'' = Some (Finite False 6755399441055744 (- 51))"
  by (simp add: parse_eval) (simp add: float_eval)

lemma py_float_5_0: "py_float ''5.0'' = Some (Finite False 5629499534213120 (- 50))"
  by (simp add: parse_eval) (simp add: float_eval)

lemma py_float_4_0: "py_float ''4.0'' = Some (Finite False 4503599627370496 (- 50))"
  by (simp add: parse_eval) (simp add: float_eval)

lemma py_float_0_05: "py_float ''0.05'' = Some (Finite False 7205759403792794 (- 57))"
  by (simp add: parse_eval) (simp add: float_eval)

lemma py_float_abc: "py_float ''abc'' = None"
  by (simp add: parse_eval)

lemma py_float_empty: "py_float [] = None"
  by (simp add: parse_eval)

lemma py_float_nan: "py_float ''nan'' = Some NaN"
  by (simp add: parse_eval)

lemma py_float_inf: "py_float ''inf'' = Some (Inf False)"
  by (simp add: parse_eval)

lemma py_int_8: "py_int ''8'' = Some 8"
  by (simp add: parse_eval)

lemma py_int_3_0: "py_int ''3.0'' = None"
  by (simp add: parse_eval)

lemma lit_1e_6_eval: "lit_1e_6 = Finite False 4722366482869645 (- 72)"
  by (simp add: lit_1e_6_def float_eval)

lemma lit_0_2_eval: "lit_0_2 = Finite False 7205759403792794 (- 55)"
  by (simp add: lit_0_2_def float_eval)

lemma lit_2_0_eval: "lit_2_0 = Finite False 4503599627370496 (- 51)"
  by (simp add: lit_2_0_def float_eval)

lemmas sample_parses =
  py_float_10_0 py_float_22_0 py_float_6_0 py_float_8_0 py_float_3_0 py_float_5_0
  py_float_4_0 py_float_0_05 py_int_8

lemma all_parse_sample_gui: "all_parse sample_gui"
  by (simp add: all_parse_def sample_gui_def sample_parses)

section \<open>The full calculation: every field must convert\<close>

text \<open>
  C1.  If any one of the eleven fields the full calculation reads (shaft diameter, number
  of drive rollers, drive roller diameter, drive roller base thickness, roller base
  diameter, ring pin diameter, cycloidal pin diameter, cycloidal pin height, tolerance,
  cycloidal disc inner diameter, cycloidal disc thickness) fails to convert, the
  calculation returns the state it was given: no output is written, nothing is raised.
\<close>

theorem calculate_aborts_on_parse_failure:
  assumes "py_float (entry_shaft_diameter st) = None
    \<or> py_int (entry_num_drive_rollers st) = None
    \<or> py_float (entry_drive_roller_diameter st) = None
    \<or> py_float (entry_drive_roller_base_thickness st) = None
    \<or> py_float (entry_roller_base_diameter st) = None
    \<or> py_float (entry_ring_pin_diameter st) = None
    \<or> py_float (entry_cycloidal_pin_diameter st) = None
    \<or> py_float (entry_cycloidal_pin_height st) = None
    \<or> py_float (entry_tolerance st) = None
    \<or> py_float (cycloidal_disc_id_var st) = None
    \<or> py_float (entry_cycloidal_disc_thickness st) = None"
  shows "calculate_cycloidal_params st = st"
  using assms unfolding calculate_cycloidal_params_def
  by (auto split: option.splits)

theorem calculate_aborts_on_parse_failure_witness:
  "py_float (entry_tolerance (sample_gui\<lparr>entry_tolerance := ''abc''\<rparr>)) = None
   \<and> calculate_cycloidal_params (sample_gui\<lparr>entry_tolerance := ''abc''\<rparr>)
       = sample_gui\<lparr>entry_tolerance := ''abc''\<rparr>"
  using calculate_aborts_on_parse_failure [of "sample_gui\<lparr>entry_tolerance := ''abc''\<rparr>"]
  by (simp add: py_float_abc)

lemma py_int_12: "py_int ''12'' = Some 12"
  by (simp add: parse_eval)

section \<open>Loading the catalogue\<close>

text \<open>
  C8.  For every path at which there is no file, loading the catalogue returns the empty
  list of records and raises nothing.
\<close>

theorem load_bearings_missing_file:
  "fs csv_filename = None \<Longrightarrow> load_bearings fs csv_filename = Inr []"
  by (simp add: load_bearings_def)

theorem load_bearings_missing_file_witness:
  "sample_fs ''missing.csv'' = None \<and> load_bearings sample_fs ''missing.csv'' = Inr []"
  using load_bearings_missing_file [of sample_fs "''missing.csv''"]
  by (simp add: sample_fs_def)

section \<open>The full calculation: what it writes and what it reads\<close>

text \<open>
  C9.  The full calculation writes the three output fields (hole diameter for drive
  rollers, hole diameter for cycloidal pins, eccentricity) and nothing else: the
  catalogue, every entry field, the derived fields of the shaft bearing and of the roller
  base bearing and the cycloidal disc inner diameter keep their values.
\<close>

theorem calculate_frame:
  "calculate_cycloidal_params st =
     st\<lparr>hole_drive_roller_var := hole_drive_roller_var (calculate_cycloidal_params st),
        hole_cycloidal_pin_var := hole_cycloidal_pin_var (calculate_cycloidal_params st),
        eccentricity_var := eccentricity_var (calculate_cycloidal_params st)\<rparr>
   \<and> bearings_list (calculate_cycloidal_params st) = bearings_list st
   \<and> entry_shaft_diameter (calculate_cycloidal_params st) = entry_shaft_diameter st
   \<and> entry_num_drive_rollers (calculate_cycloidal_params st) = entry_num_drive_rollers st
   \<and> entry_drive_roller_diameter (calculate_cycloidal_params st) = entry_drive_roller_diameter st
   \<and> entry_drive_roller_base_thickness (calculate_cycloidal_params st)
       = entry_drive_roller_base_thickness st
   \<and> entry_roller_base_diameter (calculate_cycloidal_params st) = entry_roller_base_diameter st
   \<and> entry_ring_pin_diameter (calculate_cycloidal_params st) = entry_ring_pin_diameter st
   \<and> entry_cycloidal_pin_diameter (calculate_cycloidal_params st)
       = entry_cycloidal_pin_diameter st
   \<and> entry_cycloidal_pin_height (calculate_cycloidal_params st) = entry_cycloidal_pin_height st
   \<and> entry_tolerance (calculate_cycloidal_params st) = entry_tolerance st
   \<and> entry_cycloidal_disc_thickness (calculate_cycloidal_params st)
       = entry_cycloidal_disc_thickness st
   \<and> bearing_thickness_var (calculate_cycloidal_params st) = bearing_thickness_var st
   \<and> bearing_od_var (calculate_cycloidal_params st) = bearing_od_var st
   \<and> part_number_shaft_var (calculate_cycloidal_params st) = part_number_shaft_var st
   \<and> roller_base_bearing_thickness_var (calculate_cycloidal_params st)
       = roller_base_bearing_thickness_var st
   \<and> roller_base_bearing_od_var (calculate_cycloidal_params st) = roller_base_bearing_od_var st
   \<and> part_number_roller_base_var (calculate_cycloidal_params st)
       = part_number_roller_base_var st
   \<and> cycloidal_disc_id_var (calculate_cycloidal_params st) = cycloidal_disc_id_var st"
  unfolding calculate_cycloidal_params_def
  by (simp split: option.splits)

lemma calculate_success:
  assumes "py_float (entry_shaft_diameter st) = Some shaft_diam"
    and "py_int (entry_num_drive_rollers st) = Some num_drive_rollers"
    and "py_float (entry_drive_roller_diameter st) = Some drive_roller_diam"
    and "py_float (entry_drive_roller_base_thickness st) = Some drive_roller_base_thickness"
    and "py_float (entry_roller_base_diameter st) = Some roller_base_diam"
    and "py_float (entry_ring_pin_diameter st) = Some ring_pin_diam"
    and "py_float (entry_cycloidal_pin_diameter st) = Some cycloidal_pin_diam"
    and "py_float (entry_cycloidal_pin_height st) = Some cycloidal_pin_height"
    and "py_float (entry_tolerance st) = Some tolerance_val"
    and "py_float (cycloidal_disc_id_var st) = Some cycloidal_disc_id"
    and "py_float (entry_cycloidal_disc_thickness st) = Some cycloidal_disc_thickness"
  shows "calculate_cycloidal_params st =
     st\<lparr>hole_drive_roller_var := format_3f (fsub (fadd drive_roller_diam lit_0_2) tolerance_val),
        hole_cycloidal_pin_var := format_3f (fsub (fadd cycloidal_pin_diam lit_0_2) tolerance_val),
        eccentricity_var := format_3f (fdiv (fsub ring_pin_diam cycloidal_pin_diam) lit_2_0)\<rparr>"
  using assms by (simp add: calculate_cycloidal_params_def)

lemma all_parse_outputs:
  assumes "all_parse st"
    and "py_float (entry_drive_roller_diameter st) = Some drive_roller_diam"
    and "py_float (entry_ring_pin_diameter st) = Some ring_pin_diam"
    and "py_float (entry_cycloidal_pin_diameter st) = Some cycloidal_pin_diam"
    and "py_float (entry_tolerance st) = Some tolerance_val"
  shows "hole_drive_roller_var (calculate_cycloidal_params st)
           = format_3f (fsub (fadd drive_roller_diam lit_0_2) tolerance_val)"
    and "hole_cycloidal_pin_var (calculate_cycloidal_params st)
           = format_3f (fsub (fadd cycloidal_pin_diam lit_0_2) tolerance_val)"
    and "eccentricity_var (calculate_cycloidal_params st)
           = format_3f (fdiv (fsub ring_pin_diam cycloidal_pin_diam) lit_2_0)"
proof -
  from assms(1) obtain a n b c d e f where
    "py_float (entry_shaft_diameter st) = Some a"
    "py_int (entry_num_drive_rollers st) = Some n"
    "py_float (entry_drive_roller_base_thickness st) = Some b"
    "py_float (entry_roller_base_diameter st) = Some c"
    "py_float (entry_cycloidal_pin_height st) = Some d"
    "py_float (cycloidal_disc_id_var st) = Some e"
    "py_float (entry_cycloidal_disc_thickness st) = Some f"
    unfolding all_parse_def by auto
  from calculate_success [OF this(1,2) assms(2) this(3,4) assms(3,4) this(5) assms(5) this(6,7)]
  show "hole_drive_roller_var (calculate_cycloidal_params st)
           = format_3f (fsub (fadd drive_roller_diam lit_0_2) tolerance_val)"
    and "hole_cycloidal_pin_var (calculate_cycloidal_params st)
           = format_3f (fsub (fadd cycloidal_pin_diam lit_0_2) tolerance_val)"
    and "eccentricity_var (calculate_cycloidal_params st)
           = format_3f (fdiv (fsub ring_pin_diam cycloidal_pin_diam) lit_2_0)"
    by simp_all
qed

text \<open>
  C10.  The three outputs of the full calculation depend only on the drive roller
  diameter, the cycloidal pin diameter, the ring pin diameter and the tolerance: two runs
  whose eleven fields all convert and whose four consumed fields convert to the same
  values store the same three outputs, whatever the shaft diameter, the roller base
  diameter, the cycloidal disc inner diameter and the rest of the two states are.
\<close>

theorem outputs_depend_on_consumed_fields:
  assumes "all_parse st" and "all_parse st'"
    and "py_float (entry_drive_roller_diameter st') = py_float (entry_drive_roller_diameter st)"
    and "py_float (entry_cycloidal_pin_diameter st') = py_float (entry_cycloidal_pin_diameter st)"
    and "py_float (entry_ring_pin_diameter st') = py_float (entry_ring_pin_diameter st)"
    and "py_float (entry_tolerance st') = py_float (entry_tolerance st)"
  shows "hole_drive_roller_var (calculate_cycloidal_params st')
           = hole_drive_roller_var (calculate_cycloidal_params st)
       \<and> hole_cycloidal_pin_var (calculate_cycloidal_params st')
           = hole_cycloidal_pin_var (calculate_cycloidal_params st)
       \<and> eccentricity_var (calculate_cycloidal_params st')
           = eccentricity_var (calculate_cycloidal_params st)"
proof -
  from assms(1) obtain drd rpd cpd tol where vals:
    "py_float (entry_drive_roller_diameter st) = Some drd"
    "py_float (entry_ring_pin_diameter st) = Some rpd"
    "py_float (entry_cycloidal_pin_diameter st) = Some cpd"
    "py_float (entry_tolerance st) = Some tol"
    unfolding all_parse_def by auto
  with assms(3-6) have vals':
    "py_float (entry_drive_roller_diameter st') = Some drd"
    "py_float (entry_ring_pin_diameter st') = Some rpd"
    "py_float (entry_cycloidal_pin_diameter st') = Some cpd"
    "py_float (entry_tolerance st') = Some tol"
    by simp_all
  show ?thesis
    by (simp add: all_parse_outputs [OF assms(1) vals] all_parse_outputs [OF assms(2) vals'])
qed

theorem outputs_depend_on_consumed_fields_witness:
  "all_parse sample_gui
   \<and> all_parse (sample_gui\<lparr>entry_shaft_diameter := ''22.0'',
        entry_roller_base_diameter := ''8.0'', cycloidal_disc_id_var := ''10.0''\<rparr>)
   \<and> hole_drive_roller_var (calculate_cycloidal_params
        (sample_gui\<lparr>entry_shaft_diameter := ''22.0'',
           entry_roller_base_diameter := ''8.0'', cycloidal_disc_id_var := ''10.0''\<rparr>))
       = hole_drive_roller_var (calculate_cycloidal_params sample_gui)
   \<and> hole_cycloidal_pin_var (calculate_cycloidal_params
        (sample_gui\<lparr>entry_shaft_diameter := ''22.0'',
           entry_roller_base_diameter := ''8.0'', cycloidal_disc_id_var := ''10.0''\<rparr>))
       = hole_cycloidal_pin_var (calculate_cycloidal_params sample_gui)
   \<and> eccentricity_var (calculate_cycloidal_params
        (sample_gui\<lparr>entry_shaft_diameter := ''22.0'',
           entry_roller_base_diameter := ''8.0'', cycloidal_disc_id_var := ''10.0''\<rparr>))
       = eccentricity_var (calculate_cycloidal_params sample_gui)"
proof -
  have a: "all_parse sample_gui"
    by (rule all_parse_sample_gui)
  have b: "all_parse (sample_gui\<lparr>entry_shaft_diameter := ''22.0'',
        entry_roller_base_diameter := ''8.0'', cycloidal_disc_id_var := ''10.0''\<rparr>)"
    by (simp add: all_parse_def sample_gui_def sample_parses)
  from outputs_depend_on_consumed_fields [OF a b] a b show ?thesis
    by simp
qed

text \<open>
  C6.  The number of drive rollers, the drive roller base thickness, the cycloidal pin
  height and the cycloidal disc thickness must convert for the full calculation to run
  (it returns the state unchanged when one of them does not), and no formula reads them:
  two runs whose eleven fields all convert and which differ only in these four fields
  store the same three outputs.
\<close>

theorem dead_inputs_required_but_unused:
  "(py_int (entry_num_drive_rollers st) = None
      \<or> py_float (entry_drive_roller_base_thickness st) = None
      \<or> py_float (entry_cycloidal_pin_height st) = None
      \<or> py_float (entry_cycloidal_disc_thickness st) = None
    \<longrightarrow> calculate_cycloidal_params st = st)
   \<and> (all_parse st
      \<and> all_parse (st\<lparr>entry_num_drive_rollers := n, entry_drive_roller_base_thickness := b,
            entry_cycloidal_pin_height := h, entry_cycloidal_disc_thickness := t\<rparr>)
    \<longrightarrow> hole_drive_roller_var (calculate_cycloidal_params
          (st\<lparr>entry_num_drive_rollers := n, entry_drive_roller_base_thickness := b,
             entry_cycloidal_pin_height := h, entry_cycloidal_disc_thickness := t\<rparr>))
         = hole_drive_roller_var (calculate_cycloidal_params st)
      \<and> hole_cycloidal_pin_var (calculate_cycloidal_params
          (st\<lparr>entry_num_drive_rollers := n, entry_drive_roller_base_thickness := b,
             entry_cycloidal_pin_height := h, entry_cycloidal_disc_thickness := t\<rparr>))
         = hole_cycloidal_pin_var (calculate_cycloidal_params st)
      \<and> eccentricity_var (calculate_cycloidal_params
          (st\<lparr>entry_num_drive_rollers := n, entry_drive_roller_base_thickness := b,
             entry_cycloidal_pin_height := h, entry_cycloidal_disc_thickness := t\<rparr>))
         = eccentricity_var (calculate_cycloidal_params st))"
proof (intro conjI impI)
  assume "py_int (entry_num_drive_rollers st) = None
      \<or> py_float (entry_drive_roller_base_thickness st) = None
      \<or> py_float (entry_cycloidal_pin_height st) = None
      \<or> py_float (entry_cycloidal_disc_thickness st) = None"
  then show "calculate_cycloidal_params st = st"
    unfolding calculate_cycloidal_params_def by (auto split: option.splits)
next
  let ?st' = "st\<lparr>entry_num_drive_rollers := n, entry_drive_roller_base_thickness := b,
            entry_cycloidal_pin_height := h, entry_cycloidal_disc_thickness := t\<rparr>"
  assume ap: "all_parse st \<and> all_parse ?st'"
  then obtain drd rpd cpd tol where vals:
    "py_float (entry_drive_roller_diameter st) = Some drd"
    "py_float (entry_ring_pin_diameter st) = Some rpd"
    "py_float (entry_cycloidal_pin_diameter st) = Some cpd"
    "py_float (entry_tolerance st) = Some tol"
    unfolding all_parse_def by auto
  then have vals':
    "py_float (entry_drive_roller_diameter ?st') = Some drd"
    "py_float (entry_ring_pin_diameter ?st') = Some rpd"
    "py_float (entry_cycloidal_pin_diameter ?st') = Some cpd"
    "py_float (entry_tolerance ?st') = Some tol"
    by simp_all
  from ap have p: "all_parse st" and p': "all_parse ?st'"
    by simp_all
  note o = all_parse_outputs [OF p vals] and o' = all_parse_outputs [OF p' vals']
  show "hole_drive_roller_var (calculate_cycloidal_params ?st')
         = hole_drive_roller_var (calculate_cycloidal_params st)"
    by (simp only: o o')
  show "hole_cycloidal_pin_var (calculate_cycloidal_params ?st')
         = hole_cycloidal_pin_var (calculate_cycloidal_params st)"
    by (simp only: o o')
  show "eccentricity_var (calculate_cycloidal_params ?st')
         = eccentricity_var (calculate_cycloidal_params st)"
    by (simp only: o o')
qed

theorem dead_inputs_required_but_unused_witness:
  "py_float (entry_cycloidal_pin_height (sample_gui\<lparr>entry_cycloidal_pin_height := ''abc''\<rparr>))
     = None
   \<and> calculate_cycloidal_params (sample_gui\<lparr>entry_cycloidal_pin_height := ''abc''\<rparr>)
       = sample_gui\<lparr>entry_cycloidal_pin_height := ''abc''\<rparr>
   \<and> all_parse sample_gui
   \<and> all_parse (sample_gui\<lparr>entry_num_drive_rollers := ''12'',
        entry_drive_roller_base_thickness := ''4.0'', entry_cycloidal_pin_height := ''8.0'',
        entry_cycloidal_disc_thickness := ''22.0''\<rparr>)
   \<and> hole_drive_roller_var (calculate_cycloidal_params
        (sample_gui\<lparr>entry_num_drive_rollers := ''12'',
           entry_drive_roller_base_thickness := ''4.0'', entry_cycloidal_pin_height := ''8.0'',
           entry_cycloidal_disc_thickness := ''22.0''\<rparr>))
       = hole_drive_roller_var (calculate_cycloidal_params sample_gui)
   \<and> hole_cycloidal_pin_var (calculate_cycloidal_params
        (sample_gui\<lparr>entry_num_drive_rollers := ''12'',
           entry_drive_roller_base_thickness := ''4.0'', entry_cycloidal_pin_height := ''8.0'',
           entry_cycloidal_disc_thickness := ''22.0''\<rparr>))
       = hole_cycloidal_pin_var (calculate_cycloidal_params sample_gui)
   \<and> eccentricity_var (calculate_cycloidal_params
        (sample_gui\<lparr>entry_num_drive_rollers := ''12'',
           entry_drive_roller_base_thickness := ''4.0'', entry_cycloidal_pin_height := ''8.0'',
           entry_cycloidal_disc_thickness := ''22.0''\<rparr>))
       = eccentricity_var (calculate_cycloidal_params sample_gui)"
proof -
  have b: "all_parse (sample_gui\<lparr>entry_num_drive_rollers := ''12'',
        entry_drive_roller_base_thickness := ''4.0'', entry_cycloidal_pin_height := ''8.0'',
        entry_cycloidal_disc_thickness := ''22.0''\<rparr>)"
    by (simp add: all_parse_def sample_gui_def sample_parses py_int_12)
  from dead_inputs_required_but_unused
         [where st = "sample_gui\<lparr>entry_cycloidal_pin_height := ''abc''\<rparr>",
            THEN conjunct1]
       dead_inputs_required_but_unused
         [where st = sample_gui and n = "''12''" and b = "''4.0''"
            and h = "''8.0''" and t = "''22.0''", THEN conjunct2]
       all_parse_sample_gui b
  show ?thesis
    by (simp add: py_float_abc)
qed

section \<open>Looking a bearing up\<close>

lemma find_bearing_None_iff:
  "find_bearing_by_ID bearings_data v = None \<longleftrightarrow> (\<forall>b \<in> set bearings_data. \<not> id_matches b v)"
  by (induction bearings_data) auto

lemma find_bearing_Some_iff:
  "find_bearing_by_ID bearings_data v = Some r \<longleftrightarrow>
     (\<exists>before after. bearings_data = before @ r # after \<and> id_matches r v
        \<and> (\<forall>b \<in> set before. \<not> id_matches b v))"
proof (induction bearings_data)
  case Nil
  then show ?case by simp
next
  case (Cons a bearings_data)
  show ?case
  proof (cases "id_matches a v")
    case True
    have "(\<exists>before after. a # bearings_data = before @ r # after \<and> id_matches r v
        \<and> (\<forall>b \<in> set before. \<not> id_matches b v)) \<longleftrightarrow> a = r"
    proof
      assume "\<exists>before after. a # bearings_data = before @ r # after \<and> id_matches r v
        \<and> (\<forall>b \<in> set before. \<not> id_matches b v)"
      then obtain before after where
        eq: "a # bearings_data = before @ r # after" and
        no: "\<forall>b \<in> set before. \<not> id_matches b v"
        by blast
      show "a = r"
      proof (cases before)
        case Nil
        with eq show ?thesis by simp
      next
        case (Cons x xs)
        with eq have "x = a" by simp
        with Cons no True show ?thesis by simp
      qed
    next
      assume "a = r"
      with True have "a # bearings_data = [] @ r # bearings_data \<and> id_matches r v
        \<and> (\<forall>b \<in> set []. \<not> id_matches b v)"
        by simp
      then show "\<exists>before after. a # bearings_data = before @ r # after \<and> id_matches r v
        \<and> (\<forall>b \<in> set before. \<not> id_matches b v)"
        by blast
    qed
    with True show ?thesis by simp
  next
    case False
    have "(\<exists>before after. a # bearings_data = before @ r # after \<and> id_matches r v
        \<and> (\<forall>b \<in> set before. \<not> id_matches b v)) \<longleftrightarrow>
      (\<exists>before after. bearings_data = before @ r # after \<and> id_matches r v
        \<and> (\<forall>b \<in> set before. \<not> id_matches b v))"
    proof
      assume "\<exists>before after. a # bearings_data = before @ r # after \<and> id_matches r v
        \<and> (\<forall>b \<in> set before. \<not> id_matches b v)"
      then obtain before after where
        eq: "a # bearings_data = before @ r # after" and
        m: "id_matches r v" and
        no: "\<forall>b \<in> set before. \<not> id_matches b v"
        by blast
      show "\<exists>before after. bearings_data = before @ r # after \<and> id_matches r v
        \<and> (\<forall>b \<in> set before. \<not> id_matches b v)"
      proof (cases before)
        case Nil
        with eq m False show ?thesis by simp
      next
        case (Cons x xs)
        with eq no m have "bearings_data = xs @ r # after \<and> id_matches r v
          \<and> (\<forall>b \<in> set xs. \<not> id_matches b v)"
          by simp
        then show ?thesis by blast
      qed
    next
      assume "\<exists>before after. bearings_data = before @ r # after \<and> id_matches r v
        \<and> (\<forall>b \<in> set before. \<not> id_matches b v)"
      then obtain before after where
        "bearings_data = before @ r # after" "id_matches r v"
        "\<forall>b \<in> set before. \<not> id_matches b v"
        by blast
      with False have "a # bearings_data = (a # before) @ r # after \<and> id_matches r v
        \<and> (\<forall>b \<in> set (a # before). \<not> id_matches b v)"
        by simp
      then show "\<exists>before after. a # bearings_data = before @ r # after \<and> id_matches r v
        \<and> (\<forall>b \<in> set before. \<not> id_matches b v)"
        by blast
    qed
    with False Cons.IH show ?thesis by simp
  qed
qed

lemma id_matches_10_8: "\<not> id_matches sample_bearing (Finite False 4503599627370496 (- 49))"
  by (simp add: id_matches_def sample_bearing_def lit_1e_6_eval fsub_def)
     (simp add: float_eval)

lemma id_matches_10_10: "id_matches sample_bearing (Finite False 5629499534213120 (- 49))"
  by (simp add: id_matches_def sample_bearing_def lit_1e_6_eval fsub_def)
     (simp add: float_eval)

section \<open>The change handlers on a miss\<close>

text \<open>
  C4.  Each of the two change handlers returns the state it was given when the text of
  its entry does not convert to a number, and also when it converts but no record of the
  catalogue matches within the tolerance: no derived value is erased or altered, and
  nothing is raised.
\<close>

theorem change_handlers_sticky:
  "(py_float (entry_shaft_diameter st) = None
      \<or> (\<exists>sd. py_float (entry_shaft_diameter st) = Some sd
             \<and> (\<forall>b \<in> set (bearings_list st). \<not> id_matches b sd))
    \<longrightarrow> on_shaft_diameter_change st = st)
   \<and> (py_float (entry_roller_base_diameter st) = None
      \<or> (\<exists>rbd. py_float (entry_roller_base_diameter st) = Some rbd
             \<and> (\<forall>b \<in> set (bearings_list st). \<not> id_matches b rbd))
    \<longrightarrow> on_roller_base_diameter_change st = st)"
proof (intro conjI impI)
  assume "py_float (entry_shaft_diameter st) = None
      \<or> (\<exists>sd. py_float (entry_shaft_diameter st) = Some sd
             \<and> (\<forall>b \<in> set (bearings_list st). \<not> id_matches b sd))"
  then show "on_shaft_diameter_change st = st"
  proof
    assume "py_float (entry_shaft_diameter st) = None"
    then show ?thesis by (simp add: on_shaft_diameter_change_def)
  next
    assume "\<exists>sd. py_float (entry_shaft_diameter st) = Some sd
             \<and> (\<forall>b \<in> set (bearings_list st). \<not> id_matches b sd)"
    then obtain sd where "py_float (entry_shaft_diameter st) = Some sd"
      and "find_bearing_by_ID (bearings_list st) sd = None"
      using find_bearing_None_iff by blast
    then show ?thesis by (simp add: on_shaft_diameter_change_def)
  qed
next
  assume "py_float (entry_roller_base_diameter st) = None
      \<or> (\<exists>rbd. py_float (entry_roller_base_diameter st) = Some rbd
             \<and> (\<forall>b \<in> set (bearings_list st). \<not> id_matches b rbd))"
  then show "on_roller_base_diameter_change st = st"
  proof
    assume "py_float (entry_roller_base_diameter st) = None"
    then show ?thesis by (simp add: on_roller_base_diameter_change_def)
  next
    assume "\<exists>rbd. py_float (entry_roller_base_diameter st) = Some rbd
             \<and> (\<forall>b \<in> set (bearings_list st). \<not> id_matches b rbd)"
    then obtain rbd where "py_float (entry_roller_base_diameter st) = Some rbd"
      and "find_bearing_by_ID (bearings_list st) rbd = None"
      using find_bearing_None_iff by blast
    then show ?thesis by (simp add: on_roller_base_diameter_change_def)
  qed
qed

theorem change_handlers_sticky_witness:
  "py_float (entry_shaft_diameter
      (sample_gui\<lparr>entry_shaft_diameter := ''abc'', bearing_thickness_var := ''6.0''\<rparr>)) = None
   \<and> on_shaft_diameter_change
        (sample_gui\<lparr>entry_shaft_diameter := ''abc'', bearing_thickness_var := ''6.0''\<rparr>)
       = sample_gui\<lparr>entry_shaft_diameter := ''abc'', bearing_thickness_var := ''6.0''\<rparr>
   \<and> py_float (entry_roller_base_diameter
        (sample_gui\<lparr>entry_roller_base_diameter := ''8.0'',
           roller_base_bearing_od_var := ''22.0''\<rparr>))
       = Some (Finite False 4503599627370496 (- 49))
   \<and> \<not> id_matches sample_bearing (Finite False 4503599627370496 (- 49))
   \<and> on_roller_base_diameter_change
        (sample_gui\<lparr>entry_roller_base_diameter := ''8.0'',
           roller_base_bearing_od_var := ''22.0''\<rparr>)
       = sample_gui\<lparr>entry_roller_base_diameter := ''8.0'',
           roller_base_bearing_od_var := ''22.0''\<rparr>"
proof -
  let ?s1 = "sample_gui\<lparr>entry_shaft_diameter := ''abc'', bearing_thickness_var := ''6.0''\<rparr>"
  let ?s2 = "sample_gui\<lparr>entry_roller_base_diameter := ''8.0'',
           roller_base_bearing_od_var := ''22.0''\<rparr>"
  have a: "py_float (entry_shaft_diameter ?s1) = None"
    by (simp add: py_float_abc)
  have b: "py_float (entry_roller_base_diameter ?s2) = Some (Finite False 4503599627370496 (- 49))"
    by (simp add: py_float_8_0)
  have c: "\<forall>b \<in> set (bearings_list ?s2).
             \<not> id_matches b (Finite False 4503599627370496 (- 49))"
    by (simp add: sample_gui_def id_matches_10_8)
  from a have "on_shaft_diameter_change ?s1 = ?s1"
    using change_handlers_sticky [where st = ?s1, THEN conjunct1] by blast
  moreover from b c have "on_roller_base_diameter_change ?s2 = ?s2"
    using change_handlers_sticky [where st = ?s2, THEN conjunct2] by blast
  ultimately show ?thesis
    using a b id_matches_10_8 by simp
qed

section \<open>The first match wins\<close>

lemma id_matches_self: "is_finite (ID R) \<Longrightarrow> id_matches R (ID R)"
proof -
  assume "is_finite (ID R)"
  then obtain s m e where "ID R = Finite s m e"
    by (cases "ID R") simp_all
  then show ?thesis
    by (simp add: id_matches_def fsub_def lit_1e_6_eval) (simp add: fnum_def fden_def scale2_den_def)
qed

text \<open>
  C3, with the self-lookup for finite inner diameters.  \<open>find_bearing_by_ID\<close> scans the catalogue in order and returns the
  first record whose inner diameter passes the test \<^verbatim>\<open>abs(ID - value) < 1e-6\<close> of the
  source, evaluated in binary64 arithmetic (\<open>id_matches\<close>), so among several matching
  records the first one wins; it returns \<^verbatim>\<open>None\<close> exactly when no record passes the
  test.  For every record \<open>R\<close> of the catalogue whose inner diameter is finite, looking
  up \<open>ID R\<close> returns a record that passes the test against \<open>ID R\<close>.
\<close>

theorem find_bearing_first_match:
  "(find_bearing_by_ID bearings_data v = Some r \<longleftrightarrow>
      (\<exists>before after. bearings_data = before @ r # after \<and> id_matches r v
         \<and> (\<forall>b \<in> set before. \<not> id_matches b v)))
   \<and> (find_bearing_by_ID bearings_data v = None \<longleftrightarrow>
      (\<forall>b \<in> set bearings_data. \<not> id_matches b v))
   \<and> (R \<in> set bearings_data \<and> is_finite (ID R) \<longrightarrow>
      (\<exists>found. find_bearing_by_ID bearings_data (ID R) = Some found
         \<and> flt (fabs (fsub (ID found) (ID R))) lit_1e_6))"
proof (intro conjI impI)
  show "find_bearing_by_ID bearings_data v = Some r \<longleftrightarrow>
      (\<exists>before after. bearings_data = before @ r # after \<and> id_matches r v
         \<and> (\<forall>b \<in> set before. \<not> id_matches b v))"
    by (rule find_bearing_Some_iff)
  show "find_bearing_by_ID bearings_data v = None \<longleftrightarrow>
      (\<forall>b \<in> set bearings_data. \<not> id_matches b v)"
    by (rule find_bearing_None_iff)
next
  assume h: "R \<in> set bearings_data \<and> is_finite (ID R)"
  then have "id_matches R (ID R)"
    by (simp add: id_matches_self)
  with h have "find_bearing_by_ID bearings_data (ID R) \<noteq> None"
    using find_bearing_None_iff by blast
  then obtain found where f: "find_bearing_by_ID bearings_data (ID R) = Some found"
    by blast
  then have "id_matches found (ID R)"
    using find_bearing_Some_iff by blast
  with f show "\<exists>found. find_bearing_by_ID bearings_data (ID R) = Some found
         \<and> flt (fabs (fsub (ID found) (ID R))) lit_1e_6"
    by (simp add: id_matches_def)
qed

theorem find_bearing_first_match_witness:
  "find_bearing_by_ID [sample_bearing, sample_bearing\<lparr>PartNumber := Some ''B2''\<rparr>]
      (Finite False 5629499534213120 (- 49)) = Some sample_bearing
   \<and> id_matches sample_bearing (Finite False 5629499534213120 (- 49))
   \<and> \<not> id_matches sample_bearing (Finite False 4503599627370496 (- 49))
   \<and> find_bearing_by_ID [sample_bearing] (Finite False 4503599627370496 (- 49)) = None
   \<and> sample_bearing \<in> set [sample_bearing, sample_bearing\<lparr>PartNumber := Some ''B2''\<rparr>]
   \<and> is_finite (ID sample_bearing)
   \<and> (\<exists>found.
        find_bearing_by_ID [sample_bearing, sample_bearing\<lparr>PartNumber := Some ''B2''\<rparr>]
          (ID sample_bearing) = Some found
        \<and> flt (fabs (fsub (ID found) (ID sample_bearing))) lit_1e_6)"
proof -
  let ?cat = "[sample_bearing, sample_bearing\<lparr>PartNumber := Some ''B2''\<rparr>]"
  let ?v = "Finite False 5629499534213120 (- 49)"
  let ?w = "Finite False 4503599627370496 (- 49)"
  have "?cat = [] @ sample_bearing # [sample_bearing\<lparr>PartNumber := Some ''B2''\<rparr>]
      \<and> id_matches sample_bearing ?v \<and> (\<forall>b \<in> set []. \<not> id_matches b ?v)"
    by (simp add: id_matches_10_10)
  then have "\<exists>before after. ?cat = before @ sample_bearing # after
      \<and> id_matches sample_bearing ?v \<and> (\<forall>b \<in> set before. \<not> id_matches b ?v)"
    by blast
  then have one: "find_bearing_by_ID ?cat ?v = Some sample_bearing"
    using find_bearing_first_match
      [where bearings_data = ?cat and v = ?v and r = sample_bearing, THEN conjunct1]
    by blast
  have "\<forall>b \<in> set [sample_bearing]. \<not> id_matches b ?w"
    by (simp add: id_matches_10_8)
  then have two: "find_bearing_by_ID [sample_bearing] ?w = None"
    using find_bearing_first_match
      [where bearings_data = "[sample_bearing]" and v = ?w, THEN conjunct2, THEN conjunct1]
    by blast
  have fin: "sample_bearing \<in> set ?cat \<and> is_finite (ID sample_bearing)"
    by (simp add: sample_bearing_def)
  then have three: "\<exists>found. find_bearing_by_ID ?cat (ID sample_bearing) = Some found
        \<and> flt (fabs (fsub (ID found) (ID sample_bearing))) lit_1e_6"
    using find_bearing_first_match
      [where bearings_data = ?cat and R = sample_bearing, THEN conjunct2, THEN conjunct2]
    by blast
  from one two three fin id_matches_10_10 id_matches_10_8 show ?thesis
    by simp
qed

text \<open>
  The inner diameter has to be finite.  A file whose row has the inner diameter
  \<^verbatim>\<open>inf\<close> loads, and looking up the inner diameter of the record made of it finds
  nothing: \<^verbatim>\<open>inf - inf\<close> is a NaN, and no NaN is below \<^verbatim>\<open>1e-6\<close>.
\<close>

lemma load_inf_fs: "load_bearings inf_fs ''bearing.csv'' = Inr [inf_bearing]"
  by (simp add: load_bearings_def inf_fs_def inf_row_def sample_row_def make_bearing_def
      float_item_def get_item_def float_of_cell_def sample_parses py_float_inf
      inf_bearing_def sample_bearing_def)

theorem find_bearing_self_lookup_counterexample:
  "load_bearings inf_fs ''bearing.csv'' = Inr [inf_bearing]
   \<and> inf_bearing \<in> set [inf_bearing]
   \<and> find_bearing_by_ID [inf_bearing] (ID inf_bearing) = None"
  by (simp add: load_inf_fs)
     (simp add: inf_bearing_def id_matches_def fsub_def)

section \<open>A malformed catalogue file\<close>










section \<open>The shaft diameter handler\<close>

lemma py_str_6_0: "py_str (Finite False 6755399441055744 (- 50)) = ''6.0''"
  by (simp add: py_str.simps repr_finite_def dec_exponent_def dec_str.simps shortest_repr.simps
      strip_zeros.simps float_eval digit_char_def cong: let_weak_cong)

lemma py_str_22_0: "py_str (Finite False 6192449487634432 (- 48)) = ''22.0''"
  by (simp add: py_str.simps repr_finite_def dec_exponent_def dec_str.simps shortest_repr.simps
      strip_zeros.simps float_eval digit_char_def cong: let_weak_cong)

lemma load_sample_fs: "load_bearings sample_fs ''bearing.csv'' = Inr [sample_bearing]"
  by (simp add: load_bearings_def sample_fs_def sample_row_def make_bearing_def
      float_item_def get_item_def float_of_cell_def sample_parses sample_bearing_def)

text \<open>
  C5.  When the shaft diameter text converts and a record matches, the handler stores
  the text of the record's thickness and of its outer diameter in the shaft bearing
  fields, the record's part number in the part number field, and the text of the
  record's outer diameter as the cycloidal disc inner diameter; nothing else changes.
  With the catalogue loaded from the row \<^verbatim>\<open>B1, 10.0, 22.0, 6.0\<close> and the input
  \<^verbatim>\<open>10.0\<close> the four fields read \<^verbatim>\<open>6.0\<close>, \<^verbatim>\<open>22.0\<close>, \<^verbatim>\<open>B1\<close> and \<^verbatim>\<open>22.0\<close>.
\<close>

theorem shaft_change_copies_bearing:
  "(py_float (entry_shaft_diameter st) = Some sd
      \<and> find_bearing_by_ID (bearings_list st) sd = Some found_bearing
    \<longrightarrow> on_shaft_diameter_change st =
          st\<lparr>bearing_thickness_var := py_str (Thickness found_bearing),
             bearing_od_var := py_str (OD found_bearing),
             part_number_shaft_var := tk_text (PartNumber found_bearing),
             cycloidal_disc_id_var := py_str (OD found_bearing)\<rparr>)
   \<and> (load_bearings sample_fs ''bearing.csv'' = Inr (bearings_list st)
      \<and> entry_shaft_diameter st = ''10.0''
    \<longrightarrow> bearing_thickness_var (on_shaft_diameter_change st) = ''6.0''
      \<and> bearing_od_var (on_shaft_diameter_change st) = ''22.0''
      \<and> part_number_shaft_var (on_shaft_diameter_change st) = ''B1''
      \<and> cycloidal_disc_id_var (on_shaft_diameter_change st) = ''22.0'')"
proof (rule conjI; rule impI)
  assume "py_float (entry_shaft_diameter st) = Some sd
      \<and> find_bearing_by_ID (bearings_list st) sd = Some found_bearing"
  then show "on_shaft_diameter_change st =
          st\<lparr>bearing_thickness_var := py_str (Thickness found_bearing),
             bearing_od_var := py_str (OD found_bearing),
             part_number_shaft_var := tk_text (PartNumber found_bearing),
             cycloidal_disc_id_var := py_str (OD found_bearing)\<rparr>"
    by (simp add: on_shaft_diameter_change_def)
next
  assume h: "load_bearings sample_fs ''bearing.csv'' = Inr (bearings_list st)
      \<and> entry_shaft_diameter st = ''10.0''"
  then have cat: "bearings_list st = [sample_bearing]"
    by (simp add: load_sample_fs)
  from h have sd: "py_float (entry_shaft_diameter st) = Some (Finite False 5629499534213120 (- 49))"
    by (simp add: py_float_10_0)
  from cat have "find_bearing_by_ID (bearings_list st) (Finite False 5629499534213120 (- 49))
      = Some sample_bearing"
    by (simp add: id_matches_10_10)
  with sd have "on_shaft_diameter_change st =
          st\<lparr>bearing_thickness_var := py_str (Thickness sample_bearing),
             bearing_od_var := py_str (OD sample_bearing),
             part_number_shaft_var := tk_text (PartNumber sample_bearing),
             cycloidal_disc_id_var := py_str (OD sample_bearing)\<rparr>"
    by (simp add: on_shaft_diameter_change_def)
  then show "bearing_thickness_var (on_shaft_diameter_change st) = ''6.0''
      \<and> bearing_od_var (on_shaft_diameter_change st) = ''22.0''
      \<and> part_number_shaft_var (on_shaft_diameter_change st) = ''B1''
      \<and> cycloidal_disc_id_var (on_shaft_diameter_change st) = ''22.0''"
    by (simp add: sample_bearing_def py_str_6_0 py_str_22_0 tk_text_def)
qed

theorem shaft_change_copies_bearing_witness:
  "py_float (entry_shaft_diameter sample_gui) = Some (Finite False 5629499534213120 (- 49))
   \<and> find_bearing_by_ID (bearings_list sample_gui) (Finite False 5629499534213120 (- 49))
       = Some sample_bearing
   \<and> load_bearings sample_fs ''bearing.csv'' = Inr (bearings_list sample_gui)
   \<and> entry_shaft_diameter sample_gui = ''10.0''
   \<and> on_shaft_diameter_change sample_gui =
       sample_gui\<lparr>bearing_thickness_var := ''6.0'', bearing_od_var := ''22.0'',
         part_number_shaft_var := ''B1'', cycloidal_disc_id_var := ''22.0''\<rparr>"
proof -
  let ?v = "Finite False 5629499534213120 (- 49)"
  have a: "py_float (entry_shaft_diameter sample_gui) = Some ?v"
    by (simp add: sample_gui_def py_float_10_0)
  have b: "find_bearing_by_ID (bearings_list sample_gui) ?v = Some sample_bearing"
    by (simp add: sample_gui_def id_matches_10_10)
  have c: "load_bearings sample_fs ''bearing.csv'' = Inr (bearings_list sample_gui)"
    by (simp add: load_sample_fs sample_gui_def)
  have d: "entry_shaft_diameter sample_gui = ''10.0''"
    by (simp add: sample_gui_def)
  from a b have "on_shaft_diameter_change sample_gui =
       sample_gui\<lparr>bearing_thickness_var := py_str (Thickness sample_bearing),
             bearing_od_var := py_str (OD sample_bearing),
             part_number_shaft_var := tk_text (PartNumber sample_bearing),
             cycloidal_disc_id_var := py_str (OD sample_bearing)\<rparr>"
    using shaft_change_copies_bearing
      [where st = sample_gui and sd = ?v and found_bearing = sample_bearing, THEN conjunct1]
    by blast
  then have "on_shaft_diameter_change sample_gui =
       sample_gui\<lparr>bearing_thickness_var := ''6.0'', bearing_od_var := ''22.0'',
         part_number_shaft_var := ''B1'', cycloidal_disc_id_var := ''22.0''\<rparr>"
    by (simp add: sample_bearing_def py_str_6_0 py_str_22_0 tk_text_def)
  with a b c d show ?thesis by simp
qed

section \<open>The full calculation: formulas and format\<close>

lemma is_digit_digit_char: "d < 10 \<Longrightarrow> is_digit (digit_char d)"
proof -
  assume "d < 10"
  then have "d = 0 \<or> d = 1 \<or> d = 2 \<or> d = 3 \<or> d = 4 \<or> d = 5 \<or> d = 6 \<or> d = 7 \<or> d = 8 \<or> d = 9"
    by arith
  then show ?thesis
    by (auto simp: digit_char_def is_digit_def)
qed

lemma dec_str_digits: "list_all is_digit (dec_str n)"
proof (induction n rule: dec_str.induct)
  case (1 n)
  show ?case
  proof (cases "n < 10")
    case True
    then show ?thesis
      by (subst dec_str.simps) (simp add: is_digit_digit_char)
  next
    case False
    with 1 show ?thesis
      by (subst dec_str.simps) (simp add: is_digit_digit_char)
  qed
qed

lemma dec_str_nonempty: "dec_str n \<noteq> []"
  by (subst dec_str.simps) simp

lemma frac3_digits: "r < 1000 \<Longrightarrow> length (frac3 r) = 3 \<and> list_all is_digit (frac3 r)"
proof -
  assume "r < 1000"
  then have "r div 100 < 10" and "r div 10 mod 10 < 10" and "r mod 10 < 10"
    by simp_all
  then show ?thesis
    by (simp add: frac3_def is_digit_digit_char)
qed

lemma three_decimals_digits:
  assumes "ds \<noteq> []" and "list_all is_digit ds" and "length fr = 3" and "list_all is_digit fr"
  shows "three_decimals (ds @ CHR ''.'' # fr)"
    and "three_decimals (CHR ''-'' # ds @ CHR ''.'' # fr)"
proof -
  from assms(2) have all: "\<forall>c \<in> set ds. is_digit c"
    by (simp add: list_all_iff)
  have dot: "\<not> is_digit (CHR ''.'')" and minus: "\<not> is_digit (CHR ''-'')"
    by (simp_all add: is_digit_def)
  from all dot have tw: "takeWhile is_digit (ds @ CHR ''.'' # fr) = ds"
    by (simp add: takeWhile_append2)
  from all dot have dw: "dropWhile is_digit (ds @ CHR ''.'' # fr) = CHR ''.'' # fr"
    by (simp add: dropWhile_append2)
  from assms(1) obtain c cs where ds: "ds = c # cs"
    by (cases ds) simp_all
  with all minus have "c \<noteq> CHR ''-''"
    by auto
  with ds have body: "(case ds @ CHR ''.'' # fr of [] \<Rightarrow> []
      | c # cs \<Rightarrow> if c = CHR ''-'' then cs else ds @ CHR ''.'' # fr) = ds @ CHR ''.'' # fr"
    by simp
  from assms(1,3,4) show "three_decimals (ds @ CHR ''.'' # fr)"
    unfolding three_decimals_def body Let_def tw dw by simp
  from assms(1,3,4) show "three_decimals (CHR ''-'' # ds @ CHR ''.'' # fr)"
    unfolding three_decimals_def Let_def by (simp add: tw dw)
qed

lemma three_decimals_format_3f: "is_finite x \<Longrightarrow> three_decimals (format_3f x)"
proof -
  assume "is_finite x"
  then obtain s m e where x: "x = Finite s m e"
    by (cases x) simp_all
  define k where "k = round_half_even (scale2_den m e * 1000) (fden e)"
  have fr: "length (frac3 (k mod 1000)) = 3 \<and> list_all is_digit (frac3 (k mod 1000))"
    by (rule frac3_digits) simp
  have "format_3f x = (if s then ''-'' else []) @ dec_str (k div 1000) @ CHR ''.'' # frac3 (k mod 1000)"
    by (simp add: x format_3f.simps k_def Let_def)
  with fr three_decimals_digits [OF dec_str_nonempty dec_str_digits, of "frac3 (k mod 1000)" "k div 1000"]
  show ?thesis
    by (cases s) simp_all
qed

lemma hole_6_0_0_05:
  "format_3f (fsub (fadd (Finite False 6755399441055744 (- 50)) lit_0_2)
     (Finite False 7205759403792794 (- 57))) = ''6.150''"
  by (simp add: lit_0_2_eval format_3f.simps float_eval frac3_def digit_char_def dec_str.simps
      cong: let_weak_cong)

lemma eccentricity_8_0_6_0:
  "format_3f (fdiv (fsub (Finite False 4503599627370496 (- 49))
     (Finite False 6755399441055744 (- 50))) lit_2_0) = ''1.000''"
  by (simp add: lit_2_0_eval format_3f.simps float_eval frac3_def digit_char_def dec_str.simps
      cong: let_weak_cong)

lemma hole_6_0_nan:
  "format_3f (fsub (fadd (Finite False 6755399441055744 (- 50)) lit_0_2) NaN) = ''nan''"
  by (simp add: lit_0_2_eval format_3f.simps float_eval cong: let_weak_cong)

text \<open>
  C2, with the three decimals for finite values.  When all eleven fields convert, the full calculation stores, each
  printed with the format \<^verbatim>\<open>.3f\<close>, the drive roller diameter plus 0.2 minus the
  tolerance, the cycloidal pin diameter plus 0.2 minus the tolerance, and half the
  difference of the ring pin diameter and the cycloidal pin diameter, all computed in
  binary64 arithmetic.  The printed text has exactly three decimals whenever the value
  printed is finite.  The drive roller diameter \<^verbatim>\<open>6.0\<close> with the tolerance \<^verbatim>\<open>0.05\<close>
  gives \<^verbatim>\<open>6.150\<close>; the ring pin diameter \<^verbatim>\<open>8.0\<close> with the cycloidal pin diameter
  \<^verbatim>\<open>6.0\<close> gives the eccentricity \<^verbatim>\<open>1.000\<close>.
\<close>

theorem full_calculation_outputs:
  "(all_parse st
      \<and> py_float (entry_drive_roller_diameter st) = Some drive_roller_diam
      \<and> py_float (entry_ring_pin_diameter st) = Some ring_pin_diam
      \<and> py_float (entry_cycloidal_pin_diameter st) = Some cycloidal_pin_diam
      \<and> py_float (entry_tolerance st) = Some tolerance_val
    \<longrightarrow> hole_drive_roller_var (calculate_cycloidal_params st)
          = format_3f (fsub (fadd drive_roller_diam lit_0_2) tolerance_val)
      \<and> hole_cycloidal_pin_var (calculate_cycloidal_params st)
          = format_3f (fsub (fadd cycloidal_pin_diam lit_0_2) tolerance_val)
      \<and> eccentricity_var (calculate_cycloidal_params st)
          = format_3f (fdiv (fsub ring_pin_diam cycloidal_pin_diam) lit_2_0))
   \<and> (is_finite x \<longrightarrow> three_decimals (format_3f x))
   \<and> (all_parse st \<and> entry_drive_roller_diameter st = ''6.0'' \<and> entry_tolerance st = ''0.05''
    \<longrightarrow> hole_drive_roller_var (calculate_cycloidal_params st) = ''6.150'')
   \<and> (all_parse st \<and> entry_ring_pin_diameter st = ''8.0''
      \<and> entry_cycloidal_pin_diameter st = ''6.0''
    \<longrightarrow> eccentricity_var (calculate_cycloidal_params st) = ''1.000'')"
proof -
  have one: "hole_drive_roller_var (calculate_cycloidal_params st)
          = format_3f (fsub (fadd drive_roller_diam lit_0_2) tolerance_val)
      \<and> hole_cycloidal_pin_var (calculate_cycloidal_params st)
          = format_3f (fsub (fadd cycloidal_pin_diam lit_0_2) tolerance_val)
      \<and> eccentricity_var (calculate_cycloidal_params st)
          = format_3f (fdiv (fsub ring_pin_diam cycloidal_pin_diam) lit_2_0)"
    if "all_parse st
      \<and> py_float (entry_drive_roller_diameter st) = Some drive_roller_diam
      \<and> py_float (entry_ring_pin_diameter st) = Some ring_pin_diam
      \<and> py_float (entry_cycloidal_pin_diameter st) = Some cycloidal_pin_diam
      \<and> py_float (entry_tolerance st) = Some tolerance_val"
    using that by (simp add: all_parse_outputs)
  have two: "three_decimals (format_3f x)" if "is_finite x"
    using that by (rule three_decimals_format_3f)
  have three: "hole_drive_roller_var (calculate_cycloidal_params st) = ''6.150''"
    if h: "all_parse st \<and> entry_drive_roller_diameter st = ''6.0'' \<and> entry_tolerance st = ''0.05''"
  proof -
    from h obtain rpd cpd where
      "py_float (entry_ring_pin_diameter st) = Some rpd"
      "py_float (entry_cycloidal_pin_diameter st) = Some cpd"
      unfolding all_parse_def by auto
    moreover from h have
      "py_float (entry_drive_roller_diameter st) = Some (Finite False 6755399441055744 (- 50))"
      "py_float (entry_tolerance st) = Some (Finite False 7205759403792794 (- 57))"
      by (simp_all add: py_float_6_0 py_float_0_05)
    ultimately show ?thesis
      using h by (simp add: all_parse_outputs hole_6_0_0_05)
  qed
  have four: "eccentricity_var (calculate_cycloidal_params st) = ''1.000''"
    if h: "all_parse st \<and> entry_ring_pin_diameter st = ''8.0''
      \<and> entry_cycloidal_pin_diameter st = ''6.0''"
  proof -
    from h obtain drd tol where
      "py_float (entry_drive_roller_diameter st) = Some drd"
      "py_float (entry_tolerance st) = Some tol"
      unfolding all_parse_def by auto
    moreover from h have
      "py_float (entry_ring_pin_diameter st) = Some (Finite False 4503599627370496 (- 49))"
      "py_float (entry_cycloidal_pin_diameter st) = Some (Finite False 6755399441055744 (- 50))"
      by (simp_all add: py_float_8_0 py_float_6_0)
    ultimately show ?thesis
      using h by (simp add: all_parse_outputs eccentricity_8_0_6_0)
  qed
  from one two three four show ?thesis
    by blast
qed

theorem full_calculation_outputs_witness:
  "all_parse sample_gui
   \<and> entry_drive_roller_diameter sample_gui = ''6.0''
   \<and> entry_tolerance sample_gui = ''0.05''
   \<and> entry_ring_pin_diameter sample_gui = ''8.0''
   \<and> entry_cycloidal_pin_diameter sample_gui = ''6.0''
   \<and> py_float (entry_drive_roller_diameter sample_gui)
       = Some (Finite False 6755399441055744 (- 50))
   \<and> py_float (entry_ring_pin_diameter sample_gui)
       = Some (Finite False 4503599627370496 (- 49))
   \<and> py_float (entry_cycloidal_pin_diameter sample_gui)
       = Some (Finite False 6755399441055744 (- 50))
   \<and> py_float (entry_tolerance sample_gui) = Some (Finite False 7205759403792794 (- 57))
   \<and> hole_drive_roller_var (calculate_cycloidal_params sample_gui) = ''6.150''
   \<and> hole_cycloidal_pin_var (calculate_cycloidal_params sample_gui) = ''6.150''
   \<and> eccentricity_var (calculate_cycloidal_params sample_gui) = ''1.000''
   \<and> is_finite (Finite False 6924284427082138 (- 50))
   \<and> three_decimals (format_3f (Finite False 6924284427082138 (- 50)))"
proof -
  let ?six = "Finite False 6755399441055744 (- 50)"
  let ?eight = "Finite False 4503599627370496 (- 49)"
  let ?tol = "Finite False 7205759403792794 (- 57)"
  let ?x = "Finite False 6924284427082138 (- 50)"
  note inst = full_calculation_outputs
    [where st = sample_gui and drive_roller_diam = ?six and ring_pin_diam = ?eight
       and cycloidal_pin_diam = ?six and tolerance_val = ?tol and x = ?x]
  have texts: "entry_drive_roller_diameter sample_gui = ''6.0''"
    "entry_tolerance sample_gui = ''0.05''"
    "entry_ring_pin_diameter sample_gui = ''8.0''"
    "entry_cycloidal_pin_diameter sample_gui = ''6.0''"
    by (simp_all add: sample_gui_def)
  have vals: "py_float (entry_drive_roller_diameter sample_gui) = Some ?six"
    "py_float (entry_ring_pin_diameter sample_gui) = Some ?eight"
    "py_float (entry_cycloidal_pin_diameter sample_gui) = Some ?six"
    "py_float (entry_tolerance sample_gui) = Some ?tol"
    by (simp_all add: texts sample_parses)
  from inst [THEN conjunct1] all_parse_sample_gui vals
  have outs: "hole_drive_roller_var (calculate_cycloidal_params sample_gui)
          = format_3f (fsub (fadd ?six lit_0_2) ?tol)
      \<and> hole_cycloidal_pin_var (calculate_cycloidal_params sample_gui)
          = format_3f (fsub (fadd ?six lit_0_2) ?tol)
      \<and> eccentricity_var (calculate_cycloidal_params sample_gui)
          = format_3f (fdiv (fsub ?eight ?six) lit_2_0)"
    by blast
  have fin: "is_finite ?x"
    by simp
  with inst [THEN conjunct2, THEN conjunct1] have dec: "three_decimals (format_3f ?x)"
    by blast
  from inst [THEN conjunct2, THEN conjunct2, THEN conjunct1] all_parse_sample_gui texts
  have a: "hole_drive_roller_var (calculate_cycloidal_params sample_gui) = ''6.150''"
    by blast
  from inst [THEN conjunct2, THEN conjunct2, THEN conjunct2] all_parse_sample_gui texts
  have b: "eccentricity_var (calculate_cycloidal_params sample_gui) = ''1.000''"
    by blast
  from outs a b all_parse_sample_gui texts vals fin dec show ?thesis
    by (simp add: hole_6_0_0_05)
qed

text \<open>
  The value has to be finite.  With the tolerance text \<^verbatim>\<open>nan\<close> all eleven fields
  convert, and the hole diameter for drive rollers is stored as the text \<^verbatim>\<open>nan\<close>.
\<close>

lemma all_parse_nan_gui: "all_parse nan_gui"
  by (simp add: all_parse_def nan_gui_def sample_gui_def sample_parses py_float_nan)

theorem three_decimals_counterexample:
  "all_parse nan_gui
   \<and> hole_drive_roller_var (calculate_cycloidal_params nan_gui) = ''nan''
   \<and> \<not> three_decimals (hole_drive_roller_var (calculate_cycloidal_params nan_gui))"
proof -
  have "py_float (entry_drive_roller_diameter nan_gui) = Some (Finite False 6755399441055744 (- 50))"
    "py_float (entry_ring_pin_diameter nan_gui) = Some (Finite False 4503599627370496 (- 49))"
    "py_float (entry_cycloidal_pin_diameter nan_gui) = Some (Finite False 6755399441055744 (- 50))"
    "py_float (entry_tolerance nan_gui) = Some NaN"
    by (simp_all add: nan_gui_def sample_gui_def sample_parses py_float_nan)
  from all_parse_outputs(1) [OF all_parse_nan_gui this]
  have "hole_drive_roller_var (calculate_cycloidal_params nan_gui) = ''nan''"
    by (simp add: hole_6_0_nan)
  moreover have "\<not> three_decimals ''nan''"
    by (simp add: three_decimals_def is_digit_def)
  ultimately show ?thesis
    using all_parse_nan_gui by simp
qed

end
